theory Spec2Isabelle
  imports Complex_Main
begin

section \<open>Food Stall Finder backend: data model\<close>

text \<open>
  The backend is a set of FastAPI handlers over four DynamoDB tables and one S3 bucket.
  A handler either returns a value or raises; the model returns the outcome together with
  the state the handler leaves behind, so that "nothing was written before the denial" is
  a statement about the returned state.

  \<^item> \<open>HTTPException\<close> is FastAPI's exception (status code, detail, headers; \<open>[]\<close> when the
    source passes no headers). \<open>ValueError\<close> is the uncaught exception of a function of
    Python's \<open>math\<close> outside its domain, \<open>TypeError\<close> that of boto3's serializer.
  \<^item> \<open>datetime.utcnow()\<close>, \<open>uuid.uuid4()\<close> and \<open>bcrypt.gensalt()\<close> read the environment:
    the handlers take their values as arguments (\<open>now\<close> in seconds, the fresh identifiers,
    the salt). A timestamp is kept as the instant it renders.
  \<^item> A number held in a table or sent in a form field is a real number. Where the code
    computes with floats (\<open>get_stalls\<close>), a float is a \<open>pyfloat\<close> and the platform's
    arithmetic is an argument.
\<close>

datatype error =
    HTTPException (status_code: nat) (detail: string) (headers: "(string \<times> string) list")
  | ValueError string
  | TypeError string

type_synonym datetime = int
type_synonym timedelta = int

record user =
  user_id :: string
  email :: string
  full_name :: string
  password :: string
  user_type :: string
  created_at :: datetime
  updated_at :: datetime

record LocationModel =
  latitude :: real
  longitude :: real
  address :: string

record stall =
  stall_id :: string
  owner_id :: string
  name :: string
  description :: string
  location :: LocationModel
  image_url :: string
  created_at :: datetime
  updated_at :: datetime

record menu_item =
  item_id :: string
  stall_id :: string
  name :: string
  price :: real
  description :: string
  category :: string
  image_url :: string
  created_at :: datetime
  updated_at :: datetime

record review =
  review_id :: string
  stall_id :: string
  user_id :: string
  user_name :: string
  rating :: int
  comment :: string
  created_at :: datetime
  updated_at :: datetime

record UploadFile =
  filename :: string
  content_type :: string
  contents :: string

record s3_object =
  Bucket :: string
  Key :: string
  Body :: string
  ContentType :: string

text \<open>
  Every call that writes to a collaborator (\<open>put_item\<close>, \<open>update_item\<close>, \<open>delete_item\<close> on a
  table, \<open>put_object\<close> on the bucket) is appended to \<open>writes\<close>, in the order the handler
  issues it.
\<close>

datatype table = Users | Stalls | MenuItems | Reviews

datatype db_write =
    PutItem table string
  | UpdateItem table string
  | DeleteItem table string
  | PutObject string

record state =
  users :: "user list"
  stalls :: "stall list"
  menu_items :: "menu_item list"
  reviews :: "review list"
  s3_objects :: "s3_object list"
  writes :: "db_write list"

section \<open>The persistence collaborator\<close>

text \<open>
  A table is the list of its items in storage order, addressed by its key attribute.
  \<open>put_item\<close> replaces the item stored under the key or appends a new one, \<open>update_item\<close>
  rewrites the attributes of the item under the key, \<open>scan\<close> with a filter expression
  returns every stored item that satisfies it, in storage order.
\<close>

definition get_item :: "('r \<Rightarrow> string) \<Rightarrow> 'r list \<Rightarrow> string \<Rightarrow> 'r option" where
  "get_item key tbl k = find (\<lambda>r. key r = k) tbl"

definition scan :: "('r \<Rightarrow> bool) \<Rightarrow> 'r list \<Rightarrow> 'r list" where
  "scan FilterExpression tbl = filter FilterExpression tbl"

definition put_item :: "('r \<Rightarrow> string) \<Rightarrow> 'r list \<Rightarrow> 'r \<Rightarrow> 'r list" where
  "put_item key tbl Item =
     (if list_ex (\<lambda>r. key r = key Item) tbl
      then map (\<lambda>r. if key r = key Item then Item else r) tbl
      else tbl @ [Item])"

definition delete_item :: "('r \<Rightarrow> string) \<Rightarrow> 'r list \<Rightarrow> string \<Rightarrow> 'r list" where
  "delete_item key tbl k = filter (\<lambda>r. key r \<noteq> k) tbl"

definition update_item :: "('r \<Rightarrow> string) \<Rightarrow> 'r list \<Rightarrow> string \<Rightarrow> ('r \<Rightarrow> 'r) \<Rightarrow> 'r list" where
  "update_item key tbl k UpdateExpression =
     map (\<lambda>r. if key r = k then UpdateExpression r else r) tbl"

definition users_put_item :: "user \<Rightarrow> state \<Rightarrow> state" where
  "users_put_item Item s =
     s\<lparr>users := put_item user.user_id (users s) Item,
       writes := writes s @ [PutItem Users (user.user_id Item)]\<rparr>"

definition stalls_put_item :: "stall \<Rightarrow> state \<Rightarrow> state" where
  "stalls_put_item Item s =
     s\<lparr>stalls := put_item stall.stall_id (stalls s) Item,
       writes := writes s @ [PutItem Stalls (stall.stall_id Item)]\<rparr>"

definition stalls_update_item :: "string \<Rightarrow> (stall \<Rightarrow> stall) \<Rightarrow> state \<Rightarrow> state" where
  "stalls_update_item k UpdateExpression s =
     s\<lparr>stalls := update_item stall.stall_id (stalls s) k UpdateExpression,
       writes := writes s @ [UpdateItem Stalls k]\<rparr>"

definition stalls_delete_item :: "string \<Rightarrow> state \<Rightarrow> state" where
  "stalls_delete_item k s =
     s\<lparr>stalls := delete_item stall.stall_id (stalls s) k,
       writes := writes s @ [DeleteItem Stalls k]\<rparr>"

definition menu_items_put_item :: "menu_item \<Rightarrow> state \<Rightarrow> state" where
  "menu_items_put_item Item s =
     s\<lparr>menu_items := put_item menu_item.item_id (menu_items s) Item,
       writes := writes s @ [PutItem MenuItems (menu_item.item_id Item)]\<rparr>"

definition menu_items_update_item :: "string \<Rightarrow> (menu_item \<Rightarrow> menu_item) \<Rightarrow> state \<Rightarrow> state" where
  "menu_items_update_item k UpdateExpression s =
     s\<lparr>menu_items := update_item menu_item.item_id (menu_items s) k UpdateExpression,
       writes := writes s @ [UpdateItem MenuItems k]\<rparr>"

definition menu_items_delete_item :: "string \<Rightarrow> state \<Rightarrow> state" where
  "menu_items_delete_item k s =
     s\<lparr>menu_items := delete_item menu_item.item_id (menu_items s) k,
       writes := writes s @ [DeleteItem MenuItems k]\<rparr>"

definition reviews_put_item :: "review \<Rightarrow> state \<Rightarrow> state" where
  "reviews_put_item Item s =
     s\<lparr>reviews := put_item review.review_id (reviews s) Item,
       writes := writes s @ [PutItem Reviews (review.review_id Item)]\<rparr>"

definition reviews_update_item :: "string \<Rightarrow> (review \<Rightarrow> review) \<Rightarrow> state \<Rightarrow> state" where
  "reviews_update_item k UpdateExpression s =
     s\<lparr>reviews := update_item review.review_id (reviews s) k UpdateExpression,
       writes := writes s @ [UpdateItem Reviews k]\<rparr>"

definition reviews_delete_item :: "string \<Rightarrow> state \<Rightarrow> state" where
  "reviews_delete_item k s =
     s\<lparr>reviews := delete_item review.review_id (reviews s) k,
       writes := writes s @ [DeleteItem Reviews k]\<rparr>"

text \<open>
  boto3's table resource serialises the attribute values of a \<open>put_item\<close> or \<open>update_item\<close>
  call before it sends the request. A number has to be an \<open>int\<close> or a \<open>Decimal\<close> (which is
  also what a number read from a table is); for a Python \<open>float\<close> the serializer raises
  \<open>TypeError\<close>, and the call writes nothing. It is written into the menu handlers, which
  pass the \<open>price\<close> form field.
\<close>

datatype number = PyInt int | PyDecimal real | PyFloat real

definition serialize_number :: "number \<Rightarrow> error + real" where
  "serialize_number n =
     (case n of
        PyInt i \<Rightarrow> Inr (of_int i)
      | PyDecimal d \<Rightarrow> Inr d
      | PyFloat f \<Rightarrow>
          Inl (TypeError ''Float types are not supported. Use Decimal types instead.''))"

section \<open>config.py and utils/s3.py\<close>

definition SECRET_KEY :: string where
  "SECRET_KEY = ''your-secret-key-here''"

definition ALGORITHM :: string where
  "ALGORITHM = ''HS256''"

definition AWS_REGION :: string where
  "AWS_REGION = ''us-east-1''"

definition S3_BUCKET_NAME :: string where
  "S3_BUCKET_NAME = ''food-stall-finder''"

text \<open>\<open>file.filename.split(".")[-1]\<close>: what follows the last dot, the whole name without one.\<close>

definition file_extension :: "string \<Rightarrow> string" where
  "file_extension fn = rev (takeWhile (\<lambda>c. c \<noteq> CHR ''.'') (rev fn))"

definition upload_file_to_s3 :: "UploadFile \<Rightarrow> string \<Rightarrow> string \<Rightarrow> state \<Rightarrow> string \<times> state" where
  "upload_file_to_s3 file prefix uuid4 s =
     (let unique_filename = prefix @ ''/'' @ uuid4 @ ''.'' @ file_extension (filename file);
          s' = s\<lparr>s3_objects := s3_objects s @
                   [\<lparr>Bucket = S3_BUCKET_NAME, Key = unique_filename,
                     Body = contents file, ContentType = content_type file\<rparr>],
                 writes := writes s @ [PutObject unique_filename]\<rparr>;
          url = ''https://'' @ S3_BUCKET_NAME @ ''.s3.'' @ AWS_REGION @ ''.amazonaws.com/''
                @ unique_filename
      in (url, s'))"

section \<open>auth/jwt.py\<close>

text \<open>
  The signed-token library and the password hash are collaborators outside the repository:
  the handlers take \<open>jwt_encode\<close>, \<open>jwt_decode\<close>, \<open>hashpw\<close> and \<open>checkpw\<close> as arguments.
  \<open>jwt_decode\<close> returns \<open>None\<close> where the library raises \<open>JWTError\<close>; it reads the clock,
  so it takes the instant of the call. A token is a value of an opaque type.

  The \<open>current_user\<close> argument of a router handler is the user that the dependency
  \<open>get_current_user\<close> resolved from the bearer token; where the handler declares
  \<open>Depends(get_current_owner)\<close>, that gate is the handler's first step.
\<close>

record claims =
  sub :: "string option"
  exp :: "datetime option"

definition minutes :: "int \<Rightarrow> timedelta" where
  "minutes m = 60 * m"

definition create_access_token ::
  "(claims \<Rightarrow> string \<Rightarrow> string \<Rightarrow> 'tok) \<Rightarrow> claims \<Rightarrow> timedelta option \<Rightarrow> datetime \<Rightarrow> 'tok" where
  "create_access_token jwt_encode data expires_delta now =
     (let expire = (case expires_delta of
                      Some d \<Rightarrow> if d \<noteq> 0 then now + d else now + minutes 15
                    | None \<Rightarrow> now + minutes 15);
          to_encode = data\<lparr>exp := Some expire\<rparr>
      in jwt_encode to_encode SECRET_KEY ALGORITHM)"

definition credentials_exception :: error where
  "credentials_exception =
     HTTPException 401 ''Could not validate credentials'' [(''WWW-Authenticate'', ''Bearer'')]"

definition get_current_user ::
  "('tok \<Rightarrow> string \<Rightarrow> string list \<Rightarrow> datetime \<Rightarrow> claims option) \<Rightarrow> state \<Rightarrow> 'tok \<Rightarrow> datetime
     \<Rightarrow> error + user" where
  "get_current_user jwt_decode s token now =
     (case jwt_decode token SECRET_KEY [ALGORITHM] now of
        None \<Rightarrow> Inl credentials_exception
      | Some payload \<Rightarrow>
          (case sub payload of
             None \<Rightarrow> Inl credentials_exception
           | Some uid \<Rightarrow>
               (case get_item user.user_id (users s) uid of
                  None \<Rightarrow> Inl credentials_exception
                | Some u \<Rightarrow> Inr u)))"

definition get_current_owner :: "user \<Rightarrow> error + user" where
  "get_current_owner current_user =
     (if user.user_type current_user \<noteq> ''owner''
      then Inl (HTTPException 403 ''User is not an owner'' [])
      else Inr current_user)"

section \<open>auth/auth.py\<close>

record UserCreate =
  email :: string
  full_name :: string
  password :: string
  user_type :: string

record UserResponse =
  email :: string
  full_name :: string
  user_id :: string
  user_type :: string
  created_at :: datetime

record 'tok Token =
  access_token :: 'tok
  token_type :: string

definition register_user ::
  "(string \<Rightarrow> string \<Rightarrow> string) \<Rightarrow> state \<Rightarrow> UserCreate \<Rightarrow> string \<Rightarrow> string \<Rightarrow> datetime
     \<Rightarrow> (error + UserResponse) \<times> state" where
  "register_user hashpw s u gensalt uuid4 now =
     (if scan (\<lambda>x. user.email x = UserCreate.email u) (users s) \<noteq> []
      then (Inl (HTTPException 400 ''User with this email already exists'' []), s)
      else if UserCreate.user_type u \<notin> set [''owner'', ''customer'']
      then (Inl (HTTPException 400 (''User type must be either 'owner' or 'customer'' @ [CHR 0x27]) []), s)
      else
        (let hashed_password = hashpw (UserCreate.password u) gensalt;
             new_user = \<lparr>user.user_id = uuid4,
                         user.email = UserCreate.email u,
                         user.full_name = UserCreate.full_name u,
                         user.password = hashed_password,
                         user.user_type = UserCreate.user_type u,
                         user.created_at = now,
                         user.updated_at = now\<rparr>
         in (Inr \<lparr>UserResponse.email = UserCreate.email u,
                  UserResponse.full_name = UserCreate.full_name u,
                  UserResponse.user_id = uuid4,
                  UserResponse.user_type = UserCreate.user_type u,
                  UserResponse.created_at = now\<rparr>,
             users_put_item new_user s)))"

definition login_exception :: error where
  "login_exception =
     HTTPException 401 ''Incorrect email or password'' [(''WWW-Authenticate'', ''Bearer'')]"

definition login_for_access_token ::
  "(string \<Rightarrow> string \<Rightarrow> bool) \<Rightarrow> (claims \<Rightarrow> string \<Rightarrow> string \<Rightarrow> 'tok) \<Rightarrow> state \<Rightarrow> string \<Rightarrow> string
     \<Rightarrow> datetime \<Rightarrow> (error + 'tok Token) \<times> state" where
  "login_for_access_token checkpw jwt_encode s username pw now =
     (case scan (\<lambda>x. user.email x = username) (users s) of
        [] \<Rightarrow> (Inl login_exception, s)
      | u # _ \<Rightarrow>
          if \<not> checkpw pw (user.password u)
          then (Inl login_exception, s)
          else
            (let access_token_expires = minutes (60 * 24 * 7);
                 access_token = create_access_token jwt_encode
                                  \<lparr>sub = Some (user.user_id u), exp = None\<rparr>
                                  (Some access_token_expires) now
             in (Inr \<lparr>access_token = access_token, token_type = ''bearer''\<rparr>, s)))"

section \<open>Python floats\<close>















section \<open>utils/location.py\<close>


section \<open>Truthiness of optional form fields\<close>

text \<open>
  \<open>if name:\<close> on an \<open>Optional[str]\<close> holds for a non-empty string, \<open>any([latitude, ...])\<close>
  on an \<open>Optional[float]\<close> for a number other than zero; \<open>if image:\<close> on an
  \<open>Optional[UploadFile]\<close> for every file, so it is a test against \<open>None\<close>.
\<close>

definition truthy_str :: "string option \<Rightarrow> bool" where
  "truthy_str x = (case x of None \<Rightarrow> False | Some v \<Rightarrow> v \<noteq> [])"

definition truthy_float :: "real option \<Rightarrow> bool" where
  "truthy_float x = (case x of None \<Rightarrow> False | Some v \<Rightarrow> v \<noteq> 0)"

definition any :: "bool list \<Rightarrow> bool" where
  "any bs = list_ex (\<lambda>b. b) bs"

definition or_else :: "'a option \<Rightarrow> 'a \<Rightarrow> 'a" where
  "or_else x d = (case x of None \<Rightarrow> d | Some v \<Rightarrow> v)"

section \<open>stalls/router.py\<close>

definition stall_not_found :: error where
  "stall_not_found = HTTPException 404 ''Stall not found'' []"

definition not_the_owner :: error where
  "not_the_owner = HTTPException 403 ''You are not the owner of this stall'' []"

definition create_stall ::
  "state \<Rightarrow> user \<Rightarrow> string \<Rightarrow> string \<Rightarrow> real \<Rightarrow> real \<Rightarrow> string \<Rightarrow> UploadFile
     \<Rightarrow> string \<Rightarrow> string \<Rightarrow> datetime \<Rightarrow> (error + stall) \<times> state" where
  "create_stall s user nm descr lat lon addr image_file image_uuid4 uuid4 now =
     (case get_current_owner user of
        Inl e \<Rightarrow> (Inl e, s)
      | Inr current_user \<Rightarrow>
          (case upload_file_to_s3 image_file (''stalls/'' @ user.user_id current_user) image_uuid4 s of
             (url, s1) \<Rightarrow>
               (let new_stall = \<lparr>stall.stall_id = uuid4,
                                 stall.owner_id = user.user_id current_user,
                                 stall.name = nm,
                                 stall.description = descr,
                                 stall.location =
                                   \<lparr>latitude = lat, longitude = lon, address = addr\<rparr>,
                                 stall.image_url = url,
                                 stall.created_at = now,
                                 stall.updated_at = now\<rparr>
                in (Inr new_stall, stalls_put_item new_stall s1))))"





definition get_stall :: "state \<Rightarrow> user \<Rightarrow> string \<Rightarrow> (error + stall) \<times> state" where
  "get_stall s current_user sid =
     (case get_item stall.stall_id (stalls s) sid of
        None \<Rightarrow> (Inl stall_not_found, s)
      | Some st \<Rightarrow> (Inr st, s))"

definition update_stall ::
  "state \<Rightarrow> user \<Rightarrow> string \<Rightarrow> string option \<Rightarrow> string option \<Rightarrow> real option \<Rightarrow> real option
     \<Rightarrow> string option \<Rightarrow> UploadFile option \<Rightarrow> string \<Rightarrow> datetime
     \<Rightarrow> (error + stall option) \<times> state" where
  "update_stall s user sid nm descr lat lon addr image_file image_uuid4 now =
     (case get_current_owner user of
        Inl e \<Rightarrow> (Inl e, s)
      | Inr current_user \<Rightarrow>
     (case get_item stall.stall_id (stalls s) sid of
        None \<Rightarrow> (Inl stall_not_found, s)
      | Some st \<Rightarrow>
          if stall.owner_id st \<noteq> user.user_id current_user
          then (Inl not_the_owner, s)
          else
            (let set_updated_at = (\<lambda>x. x\<lparr>stall.updated_at := now\<rparr>);
                 set_name = (if truthy_str nm
                             then (\<lambda>x. x\<lparr>stall.name := or_else nm []\<rparr>) else id);
                 set_description = (if truthy_str descr
                             then (\<lambda>x. x\<lparr>stall.description := or_else descr []\<rparr>) else id);
                 set_location =
                   (if any [truthy_float lat, truthy_float lon, truthy_str addr]
                    then (let current_location = stall.location st;
                              new_location =
                                \<lparr>latitude = or_else lat (latitude current_location),
                                 longitude = or_else lon (longitude current_location),
                                 address = or_else addr (address current_location)\<rparr>
                          in (\<lambda>x. x\<lparr>stall.location := new_location\<rparr>))
                    else id)
             in case (case image_file of
                        None \<Rightarrow> (id, s)
                      | Some file \<Rightarrow>
                          (case upload_file_to_s3 file
                                  (''stalls/'' @ user.user_id current_user) image_uuid4 s of
                             (url, s1) \<Rightarrow> ((\<lambda>x. x\<lparr>stall.image_url := url\<rparr>), s1))) of
                  (set_image_url, s1) \<Rightarrow>
                    (let s2 = stalls_update_item sid
                                (set_image_url \<circ> set_location \<circ> set_description \<circ> set_name
                                   \<circ> set_updated_at) s1
                     in (Inr (get_item stall.stall_id (stalls s2) sid), s2)))))"

text \<open>The two cascade loops of \<open>delete_stall\<close>, one \<open>delete_item\<close> per scanned item.\<close>

fun delete_menu_items :: "menu_item list \<Rightarrow> state \<Rightarrow> state" where
  "delete_menu_items [] s = s"
| "delete_menu_items (item # items) s =
     delete_menu_items items (menu_items_delete_item (menu_item.item_id item) s)"

fun delete_reviews :: "review list \<Rightarrow> state \<Rightarrow> state" where
  "delete_reviews [] s = s"
| "delete_reviews (r # rs) s =
     delete_reviews rs (reviews_delete_item (review.review_id r) s)"

definition delete_stall :: "state \<Rightarrow> user \<Rightarrow> string \<Rightarrow> (error + unit) \<times> state" where
  "delete_stall s user sid =
     (case get_current_owner user of
        Inl e \<Rightarrow> (Inl e, s)
      | Inr current_user \<Rightarrow>
     (case get_item stall.stall_id (stalls s) sid of
        None \<Rightarrow> (Inl stall_not_found, s)
      | Some st \<Rightarrow>
          if stall.owner_id st \<noteq> user.user_id current_user
          then (Inl not_the_owner, s)
          else
            (let s1 = stalls_delete_item sid s;
                 menu_response = scan (\<lambda>m. menu_item.stall_id m = sid) (menu_items s1);
                 s2 = delete_menu_items menu_response s1;
                 reviews_response = scan (\<lambda>r. review.stall_id r = sid) (reviews s2);
                 s3 = delete_reviews reviews_response s2
             in (Inr (), s3))))"

section \<open>menu/router.py\<close>

definition menu_item_not_found :: error where
  "menu_item_not_found = HTTPException 404 ''Menu item not found'' []"

definition menu_item_mismatch :: error where
  "menu_item_mismatch = HTTPException 400 ''Menu item does not belong to this stall'' []"

definition create_menu_item ::
  "state \<Rightarrow> user \<Rightarrow> string \<Rightarrow> string \<Rightarrow> real \<Rightarrow> string \<Rightarrow> string \<Rightarrow> UploadFile
     \<Rightarrow> string \<Rightarrow> string \<Rightarrow> datetime \<Rightarrow> (error + menu_item) \<times> state" where
  "create_menu_item s user sid nm pr descr cat image_file image_uuid4 uuid4 now =
     (case get_current_owner user of
        Inl e \<Rightarrow> (Inl e, s)
      | Inr current_user \<Rightarrow>
     (case get_item stall.stall_id (stalls s) sid of
        None \<Rightarrow> (Inl stall_not_found, s)
      | Some st \<Rightarrow>
          if stall.owner_id st \<noteq> user.user_id current_user
          then (Inl not_the_owner, s)
          else
            (case upload_file_to_s3 image_file (''menu_items/'' @ sid) image_uuid4 s of
               (url, s1) \<Rightarrow>
                 (case serialize_number (PyFloat pr) of
                    Inl e \<Rightarrow> (Inl e, s1)
                  | Inr stored_price \<Rightarrow>
                      (let new_menu_item = \<lparr>menu_item.item_id = uuid4,
                                            menu_item.stall_id = sid,
                                            menu_item.name = nm,
                                            menu_item.price = stored_price,
                                            menu_item.description = descr,
                                            menu_item.category = cat,
                                            menu_item.image_url = url,
                                            menu_item.created_at = now,
                                            menu_item.updated_at = now\<rparr>
                       in (Inr new_menu_item, menu_items_put_item new_menu_item s1))))))"

definition get_menu_items ::
  "state \<Rightarrow> user \<Rightarrow> string \<Rightarrow> string option \<Rightarrow> (error + menu_item list) \<times> state" where
  "get_menu_items s current_user sid cat =
     (case get_item stall.stall_id (stalls s) sid of
        None \<Rightarrow> (Inl stall_not_found, s)
      | Some st \<Rightarrow>
          if truthy_str cat
          then (Inr (scan (\<lambda>m. menu_item.stall_id m = sid
                               \<and> menu_item.category m = or_else cat []) (menu_items s)), s)
          else (Inr (scan (\<lambda>m. menu_item.stall_id m = sid) (menu_items s)), s))"

definition update_menu_item ::
  "state \<Rightarrow> user \<Rightarrow> string \<Rightarrow> string \<Rightarrow> string option \<Rightarrow> real option \<Rightarrow> string option
     \<Rightarrow> string option \<Rightarrow> UploadFile option \<Rightarrow> string \<Rightarrow> datetime
     \<Rightarrow> (error + menu_item option) \<times> state" where
  "update_menu_item s user sid iid nm pr descr cat image_file image_uuid4 now =
     (case get_current_owner user of
        Inl e \<Rightarrow> (Inl e, s)
      | Inr current_user \<Rightarrow>
     (case get_item stall.stall_id (stalls s) sid of
        None \<Rightarrow> (Inl stall_not_found, s)
      | Some st \<Rightarrow>
          if stall.owner_id st \<noteq> user.user_id current_user
          then (Inl not_the_owner, s)
          else
     (case get_item menu_item.item_id (menu_items s) iid of
        None \<Rightarrow> (Inl menu_item_not_found, s)
      | Some mi \<Rightarrow>
          if menu_item.stall_id mi \<noteq> sid
          then (Inl menu_item_mismatch, s)
          else
            (let set_updated_at = (\<lambda>x. x\<lparr>menu_item.updated_at := now\<rparr>);
                 set_name = (if truthy_str nm
                             then (\<lambda>x. x\<lparr>menu_item.name := or_else nm []\<rparr>) else id);
                 price_value = (case pr of Some v \<Rightarrow> Some (PyFloat v) | None \<Rightarrow> None);
                 set_description = (if truthy_str descr
                             then (\<lambda>x. x\<lparr>menu_item.description := or_else descr []\<rparr>)
                             else id);
                 set_category = (if truthy_str cat
                             then (\<lambda>x. x\<lparr>menu_item.category := or_else cat []\<rparr>) else id)
             in case (case image_file of
                        None \<Rightarrow> (id, s)
                      | Some file \<Rightarrow>
                          (case upload_file_to_s3 file (''menu_items/'' @ sid) image_uuid4 s of
                             (url, s1) \<Rightarrow> ((\<lambda>x. x\<lparr>menu_item.image_url := url\<rparr>), s1))) of
                  (set_image_url, s1) \<Rightarrow>
                    (case (case price_value of
                             None \<Rightarrow> Inr id
                           | Some n \<Rightarrow>
                               (case serialize_number n of
                                  Inl e \<Rightarrow> Inl e
                                | Inr stored_price \<Rightarrow>
                                    Inr (\<lambda>x. x\<lparr>menu_item.price := stored_price\<rparr>))) of
                       Inl e \<Rightarrow> (Inl e, s1)
                     | Inr set_price \<Rightarrow>
                         (let s2 = menu_items_update_item iid
                                     (set_image_url \<circ> set_category \<circ> set_description
                                        \<circ> set_price \<circ> set_name \<circ> set_updated_at) s1
                          in (Inr (get_item menu_item.item_id (menu_items s2) iid), s2)))))))"

definition delete_menu_item :: "state \<Rightarrow> user \<Rightarrow> string \<Rightarrow> string \<Rightarrow> (error + unit) \<times> state" where
  "delete_menu_item s user sid iid =
     (case get_current_owner user of
        Inl e \<Rightarrow> (Inl e, s)
      | Inr current_user \<Rightarrow>
     (case get_item stall.stall_id (stalls s) sid of
        None \<Rightarrow> (Inl stall_not_found, s)
      | Some st \<Rightarrow>
          if stall.owner_id st \<noteq> user.user_id current_user
          then (Inl not_the_owner, s)
          else
     (case get_item menu_item.item_id (menu_items s) iid of
        None \<Rightarrow> (Inl menu_item_not_found, s)
      | Some mi \<Rightarrow>
          if menu_item.stall_id mi \<noteq> sid
          then (Inl menu_item_mismatch, s)
          else (Inr (), menu_items_delete_item iid s))))"

definition delete_menu_items_by_category ::
  "state \<Rightarrow> user \<Rightarrow> string \<Rightarrow> string \<Rightarrow> (error + unit) \<times> state" where
  "delete_menu_items_by_category s user sid cat =
     (case get_current_owner user of
        Inl e \<Rightarrow> (Inl e, s)
      | Inr current_user \<Rightarrow>
     (case get_item stall.stall_id (stalls s) sid of
        None \<Rightarrow> (Inl stall_not_found, s)
      | Some st \<Rightarrow>
          if stall.owner_id st \<noteq> user.user_id current_user
          then (Inl not_the_owner, s)
          else
            (let items = scan (\<lambda>m. menu_item.stall_id m = sid \<and> menu_item.category m = cat)
                           (menu_items s)
             in (Inr (), delete_menu_items items s))))"

section \<open>reviews/router.py\<close>

record ReviewCreate =
  rating :: int
  comment :: string

definition review_not_found :: error where
  "review_not_found = HTTPException 404 ''Review not found'' []"

definition review_mismatch :: error where
  "review_mismatch = HTTPException 400 ''Review does not belong to this stall'' []"

definition not_the_author :: error where
  "not_the_author = HTTPException 403 ''You are not the author of this review'' []"

definition own_stall :: error where
  "own_stall = HTTPException 403 ''You cannot review your own stall'' []"

definition already_reviewed :: error where
  "already_reviewed = HTTPException 400
     ''You have already reviewed this stall. Please edit your existing review.'' []"

definition rating_out_of_range :: error where
  "rating_out_of_range = HTTPException 400 ''Rating must be between 1 and 5'' []"

definition create_review ::
  "state \<Rightarrow> user \<Rightarrow> string \<Rightarrow> ReviewCreate \<Rightarrow> string \<Rightarrow> datetime \<Rightarrow> (error + review) \<times> state" where
  "create_review s current_user sid rv uuid4 now =
     (case get_item stall.stall_id (stalls s) sid of
        None \<Rightarrow> (Inl stall_not_found, s)
      | Some st \<Rightarrow>
          if stall.owner_id st = user.user_id current_user
          then (Inl own_stall, s)
          else if scan (\<lambda>r. review.stall_id r = sid
                            \<and> review.user_id r = user.user_id current_user) (reviews s) \<noteq> []
          then (Inl already_reviewed, s)
          else if ReviewCreate.rating rv < 1 \<or> ReviewCreate.rating rv > 5
          then (Inl rating_out_of_range, s)
          else
            (let new_review = \<lparr>review.review_id = uuid4,
                                review.stall_id = sid,
                                review.user_id = user.user_id current_user,
                                review.user_name = user.full_name current_user,
                                review.rating = ReviewCreate.rating rv,
                                review.comment = ReviewCreate.comment rv,
                                review.created_at = now,
                                review.updated_at = now\<rparr>
             in (Inr new_review, reviews_put_item new_review s)))"

definition get_reviews :: "state \<Rightarrow> user \<Rightarrow> string \<Rightarrow> (error + review list) \<times> state" where
  "get_reviews s current_user sid =
     (case get_item stall.stall_id (stalls s) sid of
        None \<Rightarrow> (Inl stall_not_found, s)
      | Some st \<Rightarrow> (Inr (scan (\<lambda>r. review.stall_id r = sid) (reviews s)), s))"

definition update_review ::
  "state \<Rightarrow> user \<Rightarrow> string \<Rightarrow> string \<Rightarrow> ReviewCreate \<Rightarrow> datetime
     \<Rightarrow> (error + review option) \<times> state" where
  "update_review s current_user sid rid rv now =
     (case get_item stall.stall_id (stalls s) sid of
        None \<Rightarrow> (Inl stall_not_found, s)
      | Some st \<Rightarrow>
     (case get_item review.review_id (reviews s) rid of
        None \<Rightarrow> (Inl review_not_found, s)
      | Some existing_review \<Rightarrow>
          if review.stall_id existing_review \<noteq> sid
          then (Inl review_mismatch, s)
          else if review.user_id existing_review \<noteq> user.user_id current_user
          then (Inl not_the_author, s)
          else if ReviewCreate.rating rv < 1 \<or> ReviewCreate.rating rv > 5
          then (Inl rating_out_of_range, s)
          else
            (let s1 = reviews_update_item rid
                        (\<lambda>x. x\<lparr>review.rating := ReviewCreate.rating rv,
                                review.comment := ReviewCreate.comment rv,
                                review.updated_at := now\<rparr>) s
             in (Inr (get_item review.review_id (reviews s1) rid), s1))))"

definition delete_review :: "state \<Rightarrow> user \<Rightarrow> string \<Rightarrow> string \<Rightarrow> (error + unit) \<times> state" where
  "delete_review s current_user sid rid =
     (case get_item stall.stall_id (stalls s) sid of
        None \<Rightarrow> (Inl stall_not_found, s)
      | Some st \<Rightarrow>
     (case get_item review.review_id (reviews s) rid of
        None \<Rightarrow> (Inl review_not_found, s)
      | Some existing_review \<Rightarrow>
          if review.stall_id existing_review \<noteq> sid
          then (Inl review_mismatch, s)
          else if review.user_id existing_review \<noteq> user.user_id current_user
          then (Inl not_the_author, s)
          else (Inr (), reviews_delete_item rid s)))"

section \<open>Well-formed tables and the collaborators' contracts\<close>

text \<open>
  A DynamoDB table holds one item per key. The users table moreover holds one user per
  email once every user went through \<open>register_user\<close>.
\<close>

definition users_wf :: "state \<Rightarrow> bool" where
  "users_wf s =
     (distinct (map user.user_id (users s)) \<and> distinct (map user.email (users s)))"

text \<open>
  The contract of the token library: a token decodes to the payload it was encoded from,
  under the same key and algorithm, up to the instant of its \<open>exp\<close> entry.
\<close>

definition jwt_roundtrip ::
  "(claims \<Rightarrow> string \<Rightarrow> string \<Rightarrow> 'tok)
     \<Rightarrow> ('tok \<Rightarrow> string \<Rightarrow> string list \<Rightarrow> datetime \<Rightarrow> claims option) \<Rightarrow> bool" where
  "jwt_roundtrip jwt_encode jwt_decode =
     (\<forall>payload key alg e t. exp payload = Some e \<and> t \<le> e
        \<longrightarrow> jwt_decode (jwt_encode payload key alg) key [alg] t = Some payload)"





section \<open>Example values\<close>

definition example_hashpw :: "string \<Rightarrow> string \<Rightarrow> string" where
  "example_hashpw pw salt = salt @ pw"

definition example_checkpw :: "string \<Rightarrow> string \<Rightarrow> bool" where
  "example_checkpw pw hashed = (drop (length hashed - length pw) hashed = pw)"

definition example_jwt_encode :: "claims \<Rightarrow> string \<Rightarrow> string \<Rightarrow> claims \<times> string \<times> string" where
  "example_jwt_encode payload key alg = (payload, key, alg)"

definition example_jwt_decode ::
  "claims \<times> string \<times> string \<Rightarrow> string \<Rightarrow> string list \<Rightarrow> datetime \<Rightarrow> claims option" where
  "example_jwt_decode token key algs t =
     (case token of (payload, k, alg) \<Rightarrow>
        if k = key \<and> alg \<in> set algs \<and> (case exp payload of None \<Rightarrow> True | Some e \<Rightarrow> t \<le> e)
        then Some payload else None)"

definition empty_state :: state where
  "empty_state = \<lparr>users = [], stalls = [], menu_items = [], reviews = [],
                   s3_objects = [], writes = []\<rparr>"

definition alice :: UserCreate where
  "alice = \<lparr>UserCreate.email = ''alice@example.com'', UserCreate.full_name = ''Alice'',
            UserCreate.password = ''secret'', UserCreate.user_type = ''customer''\<rparr>"


definition alice_user :: user where
  "alice_user = \<lparr>user.user_id = ''u-alice'', user.email = ''alice@example.com'',
                 user.full_name = ''Alice'', user.password = ''salt-secret'',
                 user.user_type = ''customer'', user.created_at = 100, user.updated_at = 100\<rparr>"

definition alice_state :: state where
  "alice_state = \<lparr>users = [alice_user], stalls = [], menu_items = [], reviews = [],
                   s3_objects = [], writes = [PutItem Users ''u-alice'']\<rparr>"

definition owner_ann :: user where
  "owner_ann = \<lparr>user.user_id = ''u-ann'', user.email = ''ann@example.com'',
                user.full_name = ''Ann'', user.password = ''salt-ann'',
                user.user_type = ''owner'', user.created_at = 1, user.updated_at = 1\<rparr>"

definition customer_bob :: user where
  "customer_bob = \<lparr>user.user_id = ''u-bob'', user.email = ''bob@example.com'',
                   user.full_name = ''Bob'', user.password = ''salt-bob'',
                   user.user_type = ''customer'', user.created_at = 2, user.updated_at = 2\<rparr>"

definition owner_carl :: user where
  "owner_carl = \<lparr>user.user_id = ''u-carl'', user.email = ''carl@example.com'',
                 user.full_name = ''Carl'', user.password = ''salt-carl'',
                 user.user_type = ''owner'', user.created_at = 3, user.updated_at = 3\<rparr>"

definition stall_1 :: stall where
  "stall_1 = \<lparr>stall.stall_id = ''s1'', stall.owner_id = ''u-ann'', stall.name = ''Lugaw Corner'',
              stall.description = ''Porridge'',
              stall.location = \<lparr>latitude = 14.5, longitude = 121, address = ''Manila''\<rparr>,
              stall.image_url = ''img-s1'', stall.created_at = 10, stall.updated_at = 10\<rparr>"

definition stall_2 :: stall where
  "stall_2 = \<lparr>stall.stall_id = ''s2'', stall.owner_id = ''u-carl'', stall.name = ''Ihaw Ihaw'',
              stall.description = ''Grill'',
              stall.location = \<lparr>latitude = 10.3, longitude = 123.9, address = ''Cebu''\<rparr>,
              stall.image_url = ''img-s2'', stall.created_at = 11, stall.updated_at = 11\<rparr>"

definition item_1 :: menu_item where
  "item_1 = \<lparr>menu_item.item_id = ''i1'', menu_item.stall_id = ''s1'', menu_item.name = ''Lugaw'',
             menu_item.price = 50, menu_item.description = ''Plain'',
             menu_item.category = ''rice'', menu_item.image_url = ''img-i1'',
             menu_item.created_at = 20, menu_item.updated_at = 20\<rparr>"

definition item_2 :: menu_item where
  "item_2 = \<lparr>menu_item.item_id = ''i2'', menu_item.stall_id = ''s2'', menu_item.name = ''Isaw'',
             menu_item.price = 15, menu_item.description = ''Skewer'',
             menu_item.category = ''grill'', menu_item.image_url = ''img-i2'',
             menu_item.created_at = 21, menu_item.updated_at = 21\<rparr>"

definition review_1 :: review where
  "review_1 = \<lparr>review.review_id = ''r1'', review.stall_id = ''s1'', review.user_id = ''u-bob'',
               review.user_name = ''Bob'', review.rating = 4, review.comment = ''Good'',
               review.created_at = 30, review.updated_at = 30\<rparr>"

definition review_2 :: review where
  "review_2 = \<lparr>review.review_id = ''r2'', review.stall_id = ''s2'', review.user_id = ''u-bob'',
               review.user_name = ''Bob'', review.rating = 5, review.comment = ''Great'',
               review.created_at = 31, review.updated_at = 31\<rparr>"

definition market_state :: state where
  "market_state = \<lparr>users = [owner_ann, customer_bob, owner_carl],
                    stalls = [stall_1, stall_2],
                    menu_items = [item_1, item_2],
                    reviews = [review_1, review_2],
                    s3_objects = [], writes = []\<rparr>"





definition photo :: UploadFile where
  "photo = \<lparr>filename = ''photo.final.jpg'', content_type = ''image/jpeg'', contents = ''JFIF''\<rparr>"

text \<open>
  The denial \<open>update_menu_item\<close> and \<open>delete_menu_item\<close> give for a menu item that is not
  stored, by the order of their checks: the role gate of \<open>get_current_owner\<close>, the stall
  lookup, the stall's owner, and only then the menu item lookup.
\<close>

definition missing_item_denial :: "state \<Rightarrow> user \<Rightarrow> string \<Rightarrow> error" where
  "missing_item_denial s actor sid =
     (if user.user_type actor \<noteq> ''owner''
      then HTTPException 403 ''User is not an owner'' []
      else case get_item stall.stall_id (stalls s) sid of
             None \<Rightarrow> HTTPException 404 ''Stall not found'' []
           | Some st \<Rightarrow>
               if stall.owner_id st \<noteq> user.user_id actor
               then HTTPException 403 ''You are not the owner of this stall'' []
               else HTTPException 404 ''Menu item not found'' [])"

lemmas example_defs = owner_ann_def customer_bob_def owner_carl_def stall_1_def stall_2_def
  item_1_def item_2_def review_1_def review_2_def market_state_def

lemmas handler_errors = stall_not_found_def not_the_owner_def menu_item_not_found_def
  menu_item_mismatch_def review_not_found_def review_mismatch_def not_the_author_def
  own_stall_def already_reviewed_def rating_out_of_range_def

section \<open>Facts about the tables\<close>

lemma scan_empty_iff: "scan P tbl = [] \<longleftrightarrow> (\<forall>x\<in>set tbl. \<not> P x)"
  by (simp add: scan_def filter_empty_conv)

lemma scan_find: "find P tbl = Some x \<Longrightarrow> \<exists>rest. scan P tbl = x # rest"
  by (induction tbl) (auto simp: scan_def split: if_splits)

lemma find_Some_distinct:
  "distinct (map f xs) \<Longrightarrow> x \<in> set xs \<Longrightarrow> find (\<lambda>y. f y = f x) xs = Some x"
  by (induction xs) auto

lemma get_item_distinct:
  "distinct (map key tbl) \<Longrightarrow> x \<in> set tbl \<Longrightarrow> get_item key tbl (key x) = Some x"
  by (simp add: get_item_def find_Some_distinct)

lemma filter_eq_distinct:
  "distinct (map f xs) \<Longrightarrow> x \<in> set xs \<Longrightarrow> filter (\<lambda>y. f y = f x) xs = [x]"
  by (induction xs) (auto simp: filter_empty_conv rev_image_eqI)

lemma scan_distinct:
  "distinct (map f tbl) \<Longrightarrow> x \<in> set tbl \<Longrightarrow> scan (\<lambda>y. f y = f x) tbl = [x]"
  by (simp add: scan_def filter_eq_distinct)



lemma get_item_put_item:
  "key x = k \<Longrightarrow> get_item key (put_item key tbl x) k = Some x"
  by (induction tbl) (auto simp: put_item_def get_item_def list_ex_iff split: if_splits)

lemma get_item_update_item:
  "get_item key tbl k = Some x \<Longrightarrow> (\<And>r. key (f r) = key r)
     \<Longrightarrow> get_item key (update_item key tbl k f) k = Some (f x)"
  by (induction tbl) (auto simp: update_item_def get_item_def split: if_splits)

lemma get_item_delete_item: "get_item key (delete_item key tbl k) k = None"
  by (induction tbl) (auto simp: delete_item_def get_item_def)

lemma get_item_SomeD: "get_item key tbl k = Some x \<Longrightarrow> x \<in> set tbl \<and> key x = k"
  by (induction tbl) (auto simp: get_item_def split: if_splits)

lemma upload_file_to_s3_tables:
  "upload_file_to_s3 file prefix uid s = (url, s1)
   \<Longrightarrow> menu_items s1 = menu_items s \<and> stalls s1 = stalls s
       \<and> reviews s1 = reviews s \<and> users s1 = users s"
  by (auto simp: upload_file_to_s3_def Let_def)

lemma put_item_memD: "m \<in> set (put_item key tbl x) \<Longrightarrow> m = x \<or> m \<in> set tbl"
  by (auto simp: put_item_def list_ex_iff split: if_splits)

lemma update_item_memD:
  "m \<in> set (update_item key tbl k f) \<Longrightarrow> m \<in> set tbl \<or> (\<exists>r\<in>set tbl. key r = k \<and> m = f r)"
  by (auto simp: update_item_def split: if_splits)

lemma distinct_map_replace:
  "distinct (map f xs) \<Longrightarrow> distinct (map g xs) \<Longrightarrow> e \<notin> g ` set xs
     \<Longrightarrow> distinct (map (\<lambda>r. if f r = k then e else g r) xs)"
proof (induction xs)
  case Nil
  show ?case by simp
next
  case (Cons x xs)
  show ?case
  proof (cases "f x = k")
    case True
    with Cons.prems have "\<forall>r\<in>set xs. f r \<noteq> k" by (auto simp: image_iff)
    then have "map (\<lambda>r. if f r = k then e else g r) xs = map g xs"
      by (intro map_cong) auto
    moreover from Cons.prems have "distinct (map g xs)" "e \<notin> g ` set xs"
      by auto
    ultimately show ?thesis using True by (simp del: map_eq_conv)
  next
    case False
    with Cons show ?thesis by auto
  qed
qed

lemma users_wf_empty: "users_wf empty_state"
  by (simp add: users_wf_def empty_state_def)

lemma put_item_users_wf:
  assumes "distinct (map user.user_id tbl)" and "distinct (map user.email tbl)"
    and "user.email x \<notin> user.email ` set tbl"
  shows "distinct (map user.user_id (put_item user.user_id tbl x))
       \<and> distinct (map user.email (put_item user.user_id tbl x))"
proof (cases "list_ex (\<lambda>r. user.user_id r = user.user_id x) tbl")
  case False
  with assms show ?thesis
    by (auto simp: put_item_def list_ex_iff)
next
  case True
  have ids: "map user.user_id (map (\<lambda>r. if user.user_id r = user.user_id x then x else r) tbl)
               = map user.user_id tbl"
    by (induction tbl) auto
  have emails: "map user.email (map (\<lambda>r. if user.user_id r = user.user_id x then x else r) tbl)
               = map (\<lambda>r. if user.user_id r = user.user_id x then user.email x
                             else user.email r) tbl"
    by (induction tbl) auto
  from True assms show ?thesis
    by (simp add: put_item_def ids emails distinct_map_replace del: map_map)
qed

section \<open>Registration and login\<close>

lemma register_user_result:
  "register_user hashpw s u salt uid now =
     (if \<exists>x\<in>set (users s). user.email x = UserCreate.email u
      then (Inl (HTTPException 400 ''User with this email already exists'' []), s)
      else if UserCreate.user_type u \<noteq> ''owner'' \<and> UserCreate.user_type u \<noteq> ''customer''
      then (Inl (HTTPException 400
                   (''User type must be either 'owner' or 'customer'' @ [CHR 0x27]) []), s)
      else (Inr \<lparr>UserResponse.email = UserCreate.email u,
                  UserResponse.full_name = UserCreate.full_name u,
                  UserResponse.user_id = uid,
                  UserResponse.user_type = UserCreate.user_type u,
                  UserResponse.created_at = now\<rparr>,
            users_put_item \<lparr>user.user_id = uid, user.email = UserCreate.email u,
                         user.full_name = UserCreate.full_name u,
                         user.password = hashpw (UserCreate.password u) salt,
                         user.user_type = UserCreate.user_type u,
                         user.created_at = now, user.updated_at = now\<rparr> s))"
  by (auto simp: register_user_def scan_empty_iff Let_def)

text \<open>
  Registration keeps the users table well formed, from the empty table on, and no other
  handler writes to it (\<open>handlers_keep_users\<close> below).
\<close>

lemma register_user_users_wf:
  assumes "users_wf s"
  shows "users_wf (snd (register_user hashpw s u salt uid now))"
proof (cases "fst (register_user hashpw s u salt uid now)")
  case (Inl e)
  then have "snd (register_user hashpw s u salt uid now) = s"
    by (auto simp: register_user_result split: if_splits)
  with assms show ?thesis by simp
next
  case (Inr r)
  let ?new = "\<lparr>user.user_id = uid, user.email = UserCreate.email u,
               user.full_name = UserCreate.full_name u,
               user.password = hashpw (UserCreate.password u) salt,
               user.user_type = UserCreate.user_type u,
               user.created_at = now, user.updated_at = now\<rparr>"
  from Inr have fresh: "user.email ?new \<notin> user.email ` set (users s)"
    and st: "snd (register_user hashpw s u salt uid now) = users_put_item ?new s"
    by (auto simp: register_user_result split: if_splits)
  from assms put_item_users_wf [OF _ _ fresh] show ?thesis
    unfolding st by (simp add: users_wf_def users_put_item_def)
qed

lemma register_alice:
  "register_user example_hashpw empty_state alice ''salt-'' ''u-alice'' 100
     = (Inr \<lparr>UserResponse.email = ''alice@example.com'', UserResponse.full_name = ''Alice'',
              UserResponse.user_id = ''u-alice'', UserResponse.user_type = ''customer'',
              UserResponse.created_at = 100\<rparr>, alice_state)"
  by (simp add: register_user_result empty_state_def alice_def alice_state_def alice_user_def
        users_put_item_def put_item_def example_hashpw_def)



text \<open>
  C8. \<open>login_for_access_token\<close> gives one and the same answer, 401 "Incorrect email or
  password" with the same header, and writes nothing, whether no stored user has the
  email or the user found fails the password check.
\<close>

theorem login_failure_same_response:
  "(\<forall>x\<in>set (users s). user.email x \<noteq> username)
     \<or> (\<exists>u. find (\<lambda>x. user.email x = username) (users s) = Some u
             \<and> \<not> checkpw pw (user.password u))
   \<Longrightarrow> login_for_access_token checkpw jwt_encode s username pw now
       = (Inl (HTTPException 401 ''Incorrect email or password''
                 [(''WWW-Authenticate'', ''Bearer'')]), s)"
proof (erule disjE)
  assume "\<forall>x\<in>set (users s). user.email x \<noteq> username"
  then have "scan (\<lambda>x. user.email x = username) (users s) = []"
    by (simp add: scan_empty_iff)
  then show ?thesis
    by (simp add: login_for_access_token_def login_exception_def)
next
  assume "\<exists>u. find (\<lambda>x. user.email x = username) (users s) = Some u
             \<and> \<not> checkpw pw (user.password u)"
  then obtain u where u: "find (\<lambda>x. user.email x = username) (users s) = Some u"
    and pw: "\<not> checkpw pw (user.password u)" by blast
  from u obtain rest where "scan (\<lambda>x. user.email x = username) (users s) = u # rest"
    using scan_find by fastforce
  with pw show ?thesis
    by (simp add: login_for_access_token_def login_exception_def)
qed

theorem login_failure_same_response_witness:
  "login_for_access_token example_checkpw example_jwt_encode alice_state
       ''nobody@example.com'' ''secret'' 300
     = login_for_access_token example_checkpw example_jwt_encode alice_state
         ''alice@example.com'' ''wrong'' 300
   \<and> find (\<lambda>x. user.email x = ''alice@example.com'') (users alice_state) = Some alice_user
   \<and> \<not> example_checkpw ''wrong'' (user.password alice_user)
   \<and> map user.email (users alice_state) = [''alice@example.com'']"
  using login_failure_same_response [of alice_state "''nobody@example.com''" example_checkpw
          "''secret''" example_jwt_encode 300]
    login_failure_same_response [of alice_state "''alice@example.com''" example_checkpw
          "''wrong''" example_jwt_encode 300]
  by (simp add: alice_state_def alice_user_def example_checkpw_def)

text \<open>
  C9. In a well-formed users table, logging in with a stored user's email and a password
  that passes the hash check returns a bearer token that encodes the user's identifier
  as \<open>sub\<close> and the instant 7 days after the call as \<open>exp\<close>; resolving that token up to
  that instant, in any well-formed table that still holds the user, yields that user.
\<close>

theorem login_then_resolve:
  assumes wf: "users_wf s" and wf': "users_wf s'"
    and u: "u \<in> set (users s)" and u': "u \<in> set (users s')"
    and pw: "checkpw pw (user.password u)"
    and jwt: "jwt_roundtrip jwt_encode jwt_decode"
    and t: "t \<le> now + 7 * 24 * 60 * 60"
  shows "\<exists>tok. login_for_access_token checkpw jwt_encode s (user.email u) pw now
                 = (Inr \<lparr>access_token = tok, token_type = ''bearer''\<rparr>, s)
             \<and> tok = jwt_encode
                       \<lparr>sub = Some (user.user_id u), exp = Some (now + 7 * 24 * 60 * 60)\<rparr>
                       SECRET_KEY ALGORITHM
             \<and> get_current_user jwt_decode s' tok t = Inr u"
proof -
  let ?payload = "\<lparr>sub = Some (user.user_id u), exp = Some (now + 7 * 24 * 60 * 60)\<rparr>"
  let ?tok = "jwt_encode ?payload SECRET_KEY ALGORITHM"
  have sc: "scan (\<lambda>x. user.email x = user.email u) (users s) = [u]"
    using wf u by (simp add: users_wf_def scan_distinct)
  have login: "login_for_access_token checkpw jwt_encode s (user.email u) pw now
                 = (Inr \<lparr>access_token = ?tok, token_type = ''bearer''\<rparr>, s)"
    using pw by (simp add: login_for_access_token_def sc create_access_token_def minutes_def)
  have dec: "jwt_decode ?tok SECRET_KEY [ALGORITHM] t = Some ?payload"
    using jwt t by (simp add: jwt_roundtrip_def)
  have gi: "get_item user.user_id (users s') (user.user_id u) = Some u"
    using wf' u' by (simp add: users_wf_def get_item_distinct)
  have "get_current_user jwt_decode s' ?tok t = Inr u"
    using dec gi by (simp add: get_current_user_def)
  with login show ?thesis by simp
qed

lemma example_jwt_roundtrip: "jwt_roundtrip example_jwt_encode example_jwt_decode"
  by (simp add: jwt_roundtrip_def example_jwt_encode_def example_jwt_decode_def)

theorem login_then_resolve_witness:
  "users_wf alice_state \<and> alice_user \<in> set (users alice_state)
   \<and> example_checkpw ''secret'' (user.password alice_user)
   \<and> jwt_roundtrip example_jwt_encode example_jwt_decode
   \<and> (150 :: int) \<le> 110 + 7 * 24 * 60 * 60
   \<and> snd (register_user example_hashpw empty_state alice ''salt-'' ''u-alice'' 100)
       = alice_state
   \<and> (\<exists>tok. fst (login_for_access_token example_checkpw example_jwt_encode alice_state
                   ''alice@example.com'' ''secret'' 110)
               = Inr \<lparr>access_token = tok, token_type = ''bearer''\<rparr>
            \<and> tok = (\<lparr>sub = Some ''u-alice'', exp = Some 604910\<rparr>, SECRET_KEY, ALGORITHM)
            \<and> get_current_user example_jwt_decode alice_state tok 150 = Inr alice_user)"
proof -
  have wf: "users_wf alice_state"
    by (simp add: users_wf_def alice_state_def)
  have mem: "alice_user \<in> set (users alice_state)"
    by (simp add: alice_state_def)
  have pw: "example_checkpw ''secret'' (user.password alice_user)"
    by (simp add: example_checkpw_def alice_user_def)
  have t: "(150 :: int) \<le> 110 + 7 * 24 * 60 * 60"
    by simp
  have reg: "snd (register_user example_hashpw empty_state alice ''salt-'' ''u-alice'' 100)
               = alice_state"
    by (simp add: register_alice)
  from login_then_resolve [where checkpw = example_checkpw and pw = "''secret''"
         and jwt_encode = example_jwt_encode and jwt_decode = example_jwt_decode
         and s = alice_state and s' = alice_state and u = alice_user and t = 150 and now = 110,
         OF wf wf mem mem pw example_jwt_roundtrip t]
  have "\<exists>tok. fst (login_for_access_token example_checkpw example_jwt_encode alice_state
                   ''alice@example.com'' ''secret'' 110)
               = Inr \<lparr>access_token = tok, token_type = ''bearer''\<rparr>
            \<and> tok = (\<lparr>sub = Some ''u-alice'', exp = Some 604910\<rparr>, SECRET_KEY, ALGORITHM)
            \<and> get_current_user example_jwt_decode alice_state tok 150 = Inr alice_user"
    by (simp add: alice_user_def example_jwt_encode_def)
  with wf mem pw t reg example_jwt_roundtrip show ?thesis
    by blast
qed

section \<open>Menu items\<close>

text \<open>
  C1, as stated: a menu-item update or delete that addresses a menu item that is not stored
  is denied with 404 whatever the actor's role and whether or not the actor owns the
  addressed stall. It fails: a customer gets 403 from the role gate, and an owner of
  another stall gets 403 from the ownership check, both before the menu item is looked up.
\<close>

theorem missing_menu_item_customer_forbidden:
  "get_item menu_item.item_id (menu_items market_state) ''i9'' = None
   \<and> fst (update_menu_item market_state customer_bob ''s1'' ''i9'' None (Some 60) None None None [] 40)
       = Inl (HTTPException 403 ''User is not an owner'' [])
   \<and> fst (delete_menu_item market_state owner_carl ''s1'' ''i9'')
       = Inl (HTTPException 403 ''You are not the owner of this stall'' [])"
  by (simp add: update_menu_item_def delete_menu_item_def get_current_owner_def get_item_def
        example_defs handler_errors)

text \<open>
  C1, amended: for a menu item that is not stored, update and delete answer 403 when the
  actor is not an owner, else 404 when the addressed stall is not stored, else 403 when
  the actor does not own that stall, else 404 for the menu item; nothing is written.
\<close>

theorem missing_menu_item_denial:
  assumes "get_item menu_item.item_id (menu_items s) iid = None"
  shows "update_menu_item s actor sid iid nm pr descr cat img img_id now
           = (Inl (missing_item_denial s actor sid), s)
       \<and> delete_menu_item s actor sid iid = (Inl (missing_item_denial s actor sid), s)"
  using assms
  by (simp add: update_menu_item_def delete_menu_item_def get_current_owner_def
        missing_item_denial_def handler_errors split: option.splits)

theorem missing_menu_item_denial_witness:
  "get_item menu_item.item_id (menu_items market_state) ''i9'' = None
   \<and> update_menu_item market_state owner_ann ''s1'' ''i9'' None (Some 60) None None None [] 40
       = (Inl (HTTPException 404 ''Menu item not found'' []), market_state)
   \<and> delete_menu_item market_state owner_ann ''s1'' ''i9''
       = (Inl (HTTPException 404 ''Menu item not found'' []), market_state)"
proof -
  have h: "get_item menu_item.item_id (menu_items market_state) ''i9'' = None"
    by (simp add: get_item_def example_defs)
  have d: "missing_item_denial market_state owner_ann ''s1'' = HTTPException 404 ''Menu item not found'' []"
    by (simp add: missing_item_denial_def get_item_def example_defs)
  from missing_menu_item_denial [OF h, of owner_ann "''s1''" None "Some 60" None None None "[]" 40] h
  show ?thesis unfolding d by simp
qed


text \<open>
  \<open>price\<close> is a float form field, so the serializer raises for every price a handler is
  given: \<open>create_menu_item\<close> never writes an item, and \<open>update_menu_item\<close> writes only
  when it is given no price.
\<close>

lemma update_item_same_prices:
  "(\<And>x. menu_item.price (f x) = menu_item.price x)
     \<Longrightarrow> map menu_item.price (update_item key tbl k f) = map menu_item.price tbl"
  by (induction tbl) (simp_all add: update_item_def)

lemma create_menu_item_writes_no_item:
  "menu_items (snd (create_menu_item s actor sid nm pr descr cat img img_id iid now))
     = menu_items s"
  by (simp add: create_menu_item_def get_current_owner_def upload_file_to_s3_def
        serialize_number_def Let_def split: option.splits)

lemma create_menu_item_never_returns:
  "fst (create_menu_item s actor sid nm pr descr cat img img_id iid now) \<noteq> Inr item"
  by (simp add: create_menu_item_def get_current_owner_def upload_file_to_s3_def
        serialize_number_def Let_def split: option.splits)

lemma update_menu_item_keeps_prices:
  "map menu_item.price
     (menu_items (snd (update_menu_item s actor sid iid nm pr descr cat img img_id now)))
     = map menu_item.price (menu_items s)"
proof (cases pr)
  case (Some v)
  then show ?thesis
    by (simp add: update_menu_item_def get_current_owner_def upload_file_to_s3_def
          serialize_number_def Let_def split: option.splits)
next
  case None
  then show ?thesis
    by (auto simp: update_menu_item_def get_current_owner_def upload_file_to_s3_def
          menu_items_update_item_def update_item_same_prices Let_def split: option.splits)
qed

text \<open>
  C10. No stored menu item gets a negative price: \<open>create_menu_item\<close> leaves the stored menu
  items as they are and \<open>update_menu_item\<close> leaves every stored price as it is, whatever
  price the request supplies; so when no stored price is negative before either handler
  runs, none is afterwards.
\<close>

theorem stored_prices_stay_non_negative:
  "menu_items (snd (create_menu_item s actor sid nm pr descr cat img img_id iid now))
     = menu_items s
   \<and> map menu_item.price
         (menu_items (snd (update_menu_item s actor sid iid' nm' pr' descr' cat' img' img_id'
                             now')))
       = map menu_item.price (menu_items s)
   \<and> ((\<forall>m\<in>set (menu_items s). 0 \<le> menu_item.price m)
        \<longrightarrow> (\<forall>m\<in>set (menu_items (snd (create_menu_item s actor sid nm pr descr cat img img_id
                                            iid now))). 0 \<le> menu_item.price m)
          \<and> (\<forall>m\<in>set (menu_items (snd (update_menu_item s actor sid iid' nm' pr' descr' cat'
                                            img' img_id' now'))). 0 \<le> menu_item.price m))"
proof (intro conjI impI)
  let ?c = "snd (create_menu_item s actor sid nm pr descr cat img img_id iid now)"
  let ?u = "snd (update_menu_item s actor sid iid' nm' pr' descr' cat' img' img_id' now')"
  show c: "menu_items ?c = menu_items s"
    by (rule create_menu_item_writes_no_item)
  show u: "map menu_item.price (menu_items ?u) = map menu_item.price (menu_items s)"
    by (rule update_menu_item_keeps_prices)
  assume inv: "\<forall>m\<in>set (menu_items s). 0 \<le> menu_item.price m"
  then show "\<forall>m\<in>set (menu_items ?c). 0 \<le> menu_item.price m"
    unfolding c .
  show "\<forall>m\<in>set (menu_items ?u). 0 \<le> menu_item.price m"
  proof
    fix m assume "m \<in> set (menu_items ?u)"
    then have "menu_item.price m \<in> set (map menu_item.price (menu_items ?u))"
      by simp
    then have "menu_item.price m \<in> set (map menu_item.price (menu_items s))"
      unfolding u .
    with inv show "0 \<le> menu_item.price m"
      by auto
  qed
qed


theorem stored_prices_stay_non_negative_witness:
  "map menu_item.price (menu_items market_state) = [50, 15]
   \<and> fst (create_menu_item market_state owner_ann ''s1'' ''Refund'' (- 1) ''Negative'' ''rice''
            photo ''p9'' ''i9'' 50)
       = Inl (TypeError ''Float types are not supported. Use Decimal types instead.'')
   \<and> menu_items (snd (create_menu_item market_state owner_ann ''s1'' ''Refund'' (- 1)
                         ''Negative'' ''rice'' photo ''p9'' ''i9'' 50)) = [item_1, item_2]
   \<and> fst (update_menu_item market_state owner_ann ''s1'' ''i1'' None (Some (- 5)) None None
            None [] 50)
       = Inl (TypeError ''Float types are not supported. Use Decimal types instead.'')
   \<and> menu_items (snd (update_menu_item market_state owner_ann ''s1'' ''i1'' None (Some (- 5))
                         None None None [] 50)) = [item_1, item_2]
   \<and> menu_items (snd (update_menu_item market_state owner_ann ''s1'' ''i1''
                         (Some ''Lugaw Plain'') None None None None [] 50))
       = [item_1\<lparr>menu_item.name := ''Lugaw Plain'', menu_item.updated_at := 50\<rparr>, item_2]"
proof -
  note ev = create_menu_item_def update_menu_item_def get_current_owner_def get_item_def
        upload_file_to_s3_def menu_items_put_item_def menu_items_update_item_def put_item_def
        update_item_def truthy_str_def or_else_def serialize_number_def Let_def example_defs
  have e0: "map menu_item.price (menu_items market_state) = [50, 15]"
    by (simp add: example_defs)
  have e1: "fst (create_menu_item market_state owner_ann ''s1'' ''Refund'' (- 1) ''Negative''
                  ''rice'' photo ''p9'' ''i9'' 50)
       = Inl (TypeError ''Float types are not supported. Use Decimal types instead.'')"
    by (simp add: ev)
  have e2: "fst (update_menu_item market_state owner_ann ''s1'' ''i1'' None (Some (- 5)) None
                  None None [] 50)
       = Inl (TypeError ''Float types are not supported. Use Decimal types instead.'')"
    by (simp add: ev)
  have e3: "menu_items (snd (update_menu_item market_state owner_ann ''s1'' ''i1'' None
                         (Some (- 5)) None None None [] 50)) = [item_1, item_2]"
    by (simp add: ev)
  have e4: "menu_items (snd (update_menu_item market_state owner_ann ''s1'' ''i1''
                         (Some ''Lugaw Plain'') None None None None [] 50))
       = [item_1\<lparr>menu_item.name := ''Lugaw Plain'', menu_item.updated_at := 50\<rparr>, item_2]"
    by (simp add: ev)
  have m: "menu_items market_state = [item_1, item_2]"
    by (simp add: market_state_def)
  from stored_prices_stay_non_negative [of market_state owner_ann "''s1''" "''Refund''" "- 1"
         "''Negative''" "''rice''" photo "''p9''" "''i9''" 50, THEN conjunct1]
  have e5: "menu_items (snd (create_menu_item market_state owner_ann ''s1'' ''Refund'' (- 1)
                         ''Negative'' ''rice'' photo ''p9'' ''i9'' 50)) = [item_1, item_2]"
    unfolding m .
  show ?thesis
    by (intro conjI) (rule e0 e1 e2 e3 e4 e5)+
qed


section \<open>Stalls\<close>

text \<open>
  C6. For a stored stall and an actor whose identifier is not the stall's \<open>owner_id\<close>,
  \<open>update_stall\<close> and \<open>delete_stall\<close> answer 403 and leave the state as it was.
\<close>

theorem stall_write_by_non_owner:
  assumes "get_item stall.stall_id (stalls s) sid = Some st"
    and "stall.owner_id st \<noteq> user.user_id actor"
  shows "(\<exists>d. update_stall s actor sid nm descr lat lon addr img img_id now
                = (Inl (HTTPException 403 d []), s))
       \<and> (\<exists>d. delete_stall s actor sid = (Inl (HTTPException 403 d []), s))"
  using assms
  by (simp add: update_stall_def delete_stall_def get_current_owner_def handler_errors)

theorem stall_write_by_non_owner_witness:
  "get_item stall.stall_id (stalls market_state) ''s1'' = Some stall_1
   \<and> stall.owner_id stall_1 \<noteq> user.user_id owner_carl
   \<and> update_stall market_state owner_carl ''s1'' (Some ''Mine'') None None None None None [] 40
       = (Inl (HTTPException 403 ''You are not the owner of this stall'' []), market_state)
   \<and> delete_stall market_state customer_bob ''s1''
       = (Inl (HTTPException 403 ''User is not an owner'' []), market_state)"
proof -
  have h1: "get_item stall.stall_id (stalls market_state) ''s1'' = Some stall_1"
    by (simp add: get_item_def example_defs)
  have h2: "stall.owner_id stall_1 \<noteq> user.user_id owner_carl"
    and h3: "stall.owner_id stall_1 \<noteq> user.user_id customer_bob"
    by (simp_all add: example_defs)
  have e1: "update_stall market_state owner_carl ''s1'' (Some ''Mine'') None None None None
               None [] 40
             = (Inl (HTTPException 403 ''You are not the owner of this stall'' []), market_state)"
    by (simp add: update_stall_def get_current_owner_def get_item_def example_defs
          handler_errors)
  have e2: "delete_stall market_state customer_bob ''s1''
             = (Inl (HTTPException 403 ''User is not an owner'' []), market_state)"
    by (simp add: delete_stall_def get_current_owner_def example_defs)
  from stall_write_by_non_owner [OF h1 h2, of "Some ''Mine''" None None None None None "[]" 40]
    stall_write_by_non_owner [OF h1 h3, of "Some ''Mine''" None None None None None "[]" 40]
    h1 h2 e1 e2
  show ?thesis by simp
qed

text \<open>
  C4. An update of a stored stall by its owner that supplies the latitude alone is to
  give the stall that latitude and keep its longitude and address. At latitude 0.0 the
  handler's test \<open>any([latitude, longitude, address])\<close> is false and the location is not
  written: the stall keeps latitude 14.5.
\<close>

theorem update_stall_latitude_zero_dropped:
  "update_stall market_state owner_ann ''s1'' None None (Some 0) None None None [] 40
     = (Inr (Some (stall_1\<lparr>stall.updated_at := 40\<rparr>)),
        market_state\<lparr>stalls := [stall_1\<lparr>stall.updated_at := 40\<rparr>, stall_2],
                       writes := [UpdateItem Stalls ''s1'']\<rparr>)
   \<and> latitude (stall.location (stall_1\<lparr>stall.updated_at := 40\<rparr>)) = 14.5"
  by (simp add: update_stall_def get_current_owner_def get_item_def stalls_update_item_def
        update_item_def truthy_str_def truthy_float_def any_def or_else_def Let_def example_defs)

lemma update_stall_latitude_nonzero:
  assumes "get_item stall.stall_id (stalls s) sid = Some st"
    and "stall.owner_id st = user.user_id actor"
    and "user.user_type actor = ''owner''"
    and "v \<noteq> 0"
  shows "fst (update_stall s actor sid None None (Some v) None None None img_id now)
           = Inr (Some (st\<lparr>stall.updated_at := now,
                           stall.location := \<lparr>latitude = v,
                                               longitude = longitude (stall.location st),
                                               address = address (stall.location st)\<rparr>\<rparr>))"
  using assms
  by (simp add: update_stall_def get_current_owner_def stalls_update_item_def
        truthy_str_def truthy_float_def any_def or_else_def Let_def get_item_update_item)


lemma delete_menu_items_effect:
  "menu_items (delete_menu_items items s)
     = filter (\<lambda>m. menu_item.item_id m \<notin> menu_item.item_id ` set items) (menu_items s)
   \<and> writes (delete_menu_items items s)
     = writes s @ map (\<lambda>m. DeleteItem MenuItems (menu_item.item_id m)) items
   \<and> stalls (delete_menu_items items s) = stalls s
   \<and> reviews (delete_menu_items items s) = reviews s
   \<and> users (delete_menu_items items s) = users s
   \<and> s3_objects (delete_menu_items items s) = s3_objects s"
proof (induction items arbitrary: s)
  case Nil
  show ?case by simp
next
  case (Cons item items)
  have "filter (\<lambda>m. menu_item.item_id m \<notin> menu_item.item_id ` set items)
          (delete_item menu_item.item_id (menu_items s) (menu_item.item_id item))
        = filter (\<lambda>m. menu_item.item_id m \<notin> menu_item.item_id ` set (item # items))
            (menu_items s)"
    by (auto simp: delete_item_def intro: filter_cong)
  then show ?case
    by (simp add: Cons.IH menu_items_delete_item_def)
qed

lemma delete_reviews_effect:
  "reviews (delete_reviews rs s)
     = filter (\<lambda>r. review.review_id r \<notin> review.review_id ` set rs) (reviews s)
   \<and> writes (delete_reviews rs s)
     = writes s @ map (\<lambda>r. DeleteItem Reviews (review.review_id r)) rs
   \<and> stalls (delete_reviews rs s) = stalls s
   \<and> menu_items (delete_reviews rs s) = menu_items s
   \<and> users (delete_reviews rs s) = users s
   \<and> s3_objects (delete_reviews rs s) = s3_objects s"
proof (induction rs arbitrary: s)
  case Nil
  show ?case by simp
next
  case (Cons r rs)
  have "filter (\<lambda>x. review.review_id x \<notin> review.review_id ` set rs)
          (delete_item review.review_id (reviews s) (review.review_id r))
        = filter (\<lambda>x. review.review_id x \<notin> review.review_id ` set (r # rs)) (reviews s)"
    by (auto simp: delete_item_def intro: filter_cong)
  then show ?case
    by (simp add: Cons.IH reviews_delete_item_def)
qed

text \<open>
  C2. A delete of a stored stall by its owner succeeds; afterwards \<open>get_stall\<close> answers
  404 for it, no stored menu item and no stored review refers to it, and the handler's
  writes were the stall's delete, then one delete per menu item of the stall, then one
  per review of the stall.
\<close>

theorem delete_stall_cascade:
  assumes "get_item stall.stall_id (stalls s) sid = Some st"
    and "stall.owner_id st = user.user_id actor"
    and "user.user_type actor = ''owner''"
  shows "fst (delete_stall s actor sid) = Inr ()
       \<and> get_stall (snd (delete_stall s actor sid)) reader sid
           = (Inl (HTTPException 404 ''Stall not found'' []), snd (delete_stall s actor sid))
       \<and> (\<forall>m\<in>set (menu_items (snd (delete_stall s actor sid))). menu_item.stall_id m \<noteq> sid)
       \<and> (\<forall>r\<in>set (reviews (snd (delete_stall s actor sid))). review.stall_id r \<noteq> sid)
       \<and> writes (snd (delete_stall s actor sid))
           = writes s @ [DeleteItem Stalls sid]
             @ map (\<lambda>m. DeleteItem MenuItems (menu_item.item_id m))
                 (filter (\<lambda>m. menu_item.stall_id m = sid) (menu_items s))
             @ map (\<lambda>r. DeleteItem Reviews (review.review_id r))
                 (filter (\<lambda>r. review.stall_id r = sid) (reviews s))"
proof -
  let ?s1 = "stalls_delete_item sid s"
  let ?items = "scan (\<lambda>m. menu_item.stall_id m = sid) (menu_items s)"
  let ?s2 = "delete_menu_items ?items ?s1"
  let ?rs = "scan (\<lambda>r. review.stall_id r = sid) (reviews s)"
  let ?s3 = "delete_reviews ?rs ?s2"
  have s1: "menu_items ?s1 = menu_items s" "reviews ?s1 = reviews s"
    "stalls ?s1 = delete_item stall.stall_id (stalls s) sid"
    "writes ?s1 = writes s @ [DeleteItem Stalls sid]"
    by (simp_all add: stalls_delete_item_def)
  note m = delete_menu_items_effect [of ?items ?s1]
  note r = delete_reviews_effect [of ?rs ?s2]
  have reviews2: "reviews ?s2 = reviews s"
    using m s1 by simp
  have res: "delete_stall s actor sid = (Inr (), ?s3)"
    using assms by (simp add: delete_stall_def get_current_owner_def Let_def s1 reviews2)
  have stalls3: "stalls ?s3 = delete_item stall.stall_id (stalls s) sid"
    using m r s1 by simp
  have items3: "menu_items ?s3
      = filter (\<lambda>m. menu_item.item_id m \<notin> menu_item.item_id ` set ?items) (menu_items s)"
    using m r s1 by simp
  have reviews3: "reviews ?s3
      = filter (\<lambda>x. review.review_id x \<notin> review.review_id ` set ?rs) (reviews s)"
    using r reviews2 by simp
  have writes3: "writes ?s3 = writes s @ [DeleteItem Stalls sid]
             @ map (\<lambda>m. DeleteItem MenuItems (menu_item.item_id m))
                 (filter (\<lambda>m. menu_item.stall_id m = sid) (menu_items s))
             @ map (\<lambda>r. DeleteItem Reviews (review.review_id r))
                 (filter (\<lambda>r. review.stall_id r = sid) (reviews s))"
    using m r s1 by (simp add: scan_def)
  have gone: "get_stall ?s3 reader sid = (Inl (HTTPException 404 ''Stall not found'' []), ?s3)"
    by (simp add: get_stall_def stalls3 get_item_delete_item stall_not_found_def)
  have no_items: "\<forall>m\<in>set (menu_items ?s3). menu_item.stall_id m \<noteq> sid"
  proof
    fix x assume "x \<in> set (menu_items ?s3)"
    then have "x \<in> set (menu_items s)" "menu_item.item_id x \<notin> menu_item.item_id ` set ?items"
      unfolding items3 by simp_all
    then show "menu_item.stall_id x \<noteq> sid"
      by (auto simp: scan_def)
  qed
  have no_reviews: "\<forall>r\<in>set (reviews ?s3). review.stall_id r \<noteq> sid"
  proof
    fix x assume "x \<in> set (reviews ?s3)"
    then have "x \<in> set (reviews s)" "review.review_id x \<notin> review.review_id ` set ?rs"
      unfolding reviews3 by simp_all
    then show "review.stall_id x \<noteq> sid"
      by (auto simp: scan_def)
  qed
  show ?thesis
    unfolding res fst_conv snd_conv
    using gone no_items no_reviews writes3 by blast
qed

theorem delete_stall_cascade_witness:
  "get_item stall.stall_id (stalls market_state) ''s1'' = Some stall_1
   \<and> stall.owner_id stall_1 = user.user_id owner_ann
   \<and> user.user_type owner_ann = ''owner''
   \<and> delete_stall market_state owner_ann ''s1''
       = (Inr (), market_state\<lparr>stalls := [stall_2], menu_items := [item_2],
                               reviews := [review_2],
                               writes := [DeleteItem Stalls ''s1'', DeleteItem MenuItems ''i1'',
                                          DeleteItem Reviews ''r1'']\<rparr>)
   \<and> get_stall (snd (delete_stall market_state owner_ann ''s1'')) customer_bob ''s1''
       = (Inl (HTTPException 404 ''Stall not found'' []),
          snd (delete_stall market_state owner_ann ''s1''))"
proof -
  have h1: "get_item stall.stall_id (stalls market_state) ''s1'' = Some stall_1"
    by (simp add: get_item_def example_defs)
  have h2: "stall.owner_id stall_1 = user.user_id owner_ann"
    by (simp add: example_defs)
  have h3: "user.user_type owner_ann = ''owner''"
    by (simp add: example_defs)
  have run: "delete_stall market_state owner_ann ''s1''
       = (Inr (), market_state\<lparr>stalls := [stall_2], menu_items := [item_2],
                               reviews := [review_2],
                               writes := [DeleteItem Stalls ''s1'', DeleteItem MenuItems ''i1'',
                                          DeleteItem Reviews ''r1'']\<rparr>)"
    by (simp add: delete_stall_def get_current_owner_def get_item_def scan_def
          stalls_delete_item_def menu_items_delete_item_def reviews_delete_item_def
          delete_item_def Let_def example_defs)
  from delete_stall_cascade [OF h1 h2 h3, of customer_bob]
  have gone: "get_stall (snd (delete_stall market_state owner_ann ''s1'')) customer_bob ''s1''
       = (Inl (HTTPException 404 ''Stall not found'' []),
          snd (delete_stall market_state owner_ann ''s1''))"
    by (elim conjE)
  show ?thesis
    by (intro conjI) (rule h1 h2 h3 run gone)+
qed


section \<open>Listing stalls\<close>




































section \<open>Reviews\<close>

text \<open>
  C3. On a stored stall, \<open>create_review\<close> answers 403 when the actor is the stall's owner;
  else 400 "already reviewed" when a review of the stall by the actor is stored; else 400
  "Rating must be between 1 and 5" when the rating is below 1 or above 5; else it returns
  the new review and stores it. \<open>update_review\<close> by the author of a stored review of the
  stall answers the same 400 for such a rating. A denial writes nothing.
\<close>

theorem create_review_checks:
  assumes "get_item stall.stall_id (stalls s) sid = Some st"
  shows "(stall.owner_id st = user.user_id actor
            \<longrightarrow> create_review s actor sid rv rid now
                = (Inl (HTTPException 403 ''You cannot review your own stall'' []), s))
       \<and> (stall.owner_id st \<noteq> user.user_id actor
            \<and> (\<exists>r\<in>set (reviews s). review.stall_id r = sid
                                   \<and> review.user_id r = user.user_id actor)
            \<longrightarrow> create_review s actor sid rv rid now
                = (Inl (HTTPException 400
                     ''You have already reviewed this stall. Please edit your existing review.''
                     []), s))
       \<and> (stall.owner_id st \<noteq> user.user_id actor
            \<and> (\<forall>r\<in>set (reviews s). \<not> (review.stall_id r = sid
                                      \<and> review.user_id r = user.user_id actor))
            \<and> (ReviewCreate.rating rv < 1 \<or> 5 < ReviewCreate.rating rv)
            \<longrightarrow> create_review s actor sid rv rid now
                = (Inl (HTTPException 400 ''Rating must be between 1 and 5'' []), s))
       \<and> (stall.owner_id st \<noteq> user.user_id actor
            \<and> (\<forall>r\<in>set (reviews s). \<not> (review.stall_id r = sid
                                      \<and> review.user_id r = user.user_id actor))
            \<and> 1 \<le> ReviewCreate.rating rv \<and> ReviewCreate.rating rv \<le> 5
            \<longrightarrow> (let new_review = \<lparr>review.review_id = rid, review.stall_id = sid,
                                    review.user_id = user.user_id actor,
                                    review.user_name = user.full_name actor,
                                    review.rating = ReviewCreate.rating rv,
                                    review.comment = ReviewCreate.comment rv,
                                    review.created_at = now, review.updated_at = now\<rparr>
                 in fst (create_review s actor sid rv rid now) = Inr new_review
                  \<and> get_item review.review_id
                        (reviews (snd (create_review s actor sid rv rid now))) rid
                      = Some new_review
                  \<and> new_review \<in> set (reviews (snd (create_review s actor sid rv rid now)))))
       \<and> (\<forall>existing. get_item review.review_id (reviews s) rid' = Some existing
            \<and> review.stall_id existing = sid
            \<and> review.user_id existing = user.user_id actor
            \<and> (ReviewCreate.rating rv < 1 \<or> 5 < ReviewCreate.rating rv)
            \<longrightarrow> update_review s actor sid rid' rv now
                = (Inl (HTTPException 400 ''Rating must be between 1 and 5'' []), s))"
proof -
  have mem: "x \<in> set (put_item key tbl x)" for x :: review and key tbl
    by (auto simp: put_item_def list_ex_iff)
  have got: "key x = k \<Longrightarrow> get_item key (put_item key tbl x) k = Some x"
    for x :: review and key tbl k
    by (induction tbl) (auto simp: put_item_def get_item_def list_ex_iff split: if_splits)
  show ?thesis
    using assms
    by (auto simp: create_review_def update_review_def handler_errors scan_empty_iff Let_def
          reviews_put_item_def mem got)
qed

theorem create_review_checks_witness:
  "get_item stall.stall_id (stalls market_state) ''s1'' = Some stall_1
   \<and> create_review market_state owner_ann ''s1'' \<lparr>rating = 5, comment = ''Mine''\<rparr> ''r9'' 50
       = (Inl (HTTPException 403 ''You cannot review your own stall'' []), market_state)
   \<and> create_review market_state customer_bob ''s1'' \<lparr>rating = 5, comment = ''Again''\<rparr> ''r9'' 50
       = (Inl (HTTPException 400
            ''You have already reviewed this stall. Please edit your existing review.'' []),
          market_state)
   \<and> create_review market_state owner_carl ''s1'' \<lparr>rating = 6, comment = ''Six''\<rparr> ''r9'' 50
       = (Inl (HTTPException 400 ''Rating must be between 1 and 5'' []), market_state)
   \<and> create_review market_state owner_carl ''s1'' \<lparr>rating = 0, comment = ''Zero''\<rparr> ''r9'' 50
       = (Inl (HTTPException 400 ''Rating must be between 1 and 5'' []), market_state)
   \<and> create_review market_state owner_carl ''s1'' \<lparr>rating = 5, comment = ''Five''\<rparr> ''r9'' 50
       = (Inr \<lparr>review.review_id = ''r9'', review.stall_id = ''s1'', review.user_id = ''u-carl'',
                review.user_name = ''Carl'', review.rating = 5, review.comment = ''Five'',
                review.created_at = 50, review.updated_at = 50\<rparr>,
          market_state\<lparr>reviews := [review_1, review_2,
                \<lparr>review.review_id = ''r9'', review.stall_id = ''s1'',
                  review.user_id = ''u-carl'', review.user_name = ''Carl'', review.rating = 5,
                  review.comment = ''Five'', review.created_at = 50,
                  review.updated_at = 50\<rparr>],
              writes := [PutItem Reviews ''r9'']\<rparr>)
   \<and> update_review market_state customer_bob ''s1'' ''r1'' \<lparr>rating = 6, comment = ''Six''\<rparr> 50
       = (Inl (HTTPException 400 ''Rating must be between 1 and 5'' []), market_state)"
proof -
  have h: "get_item stall.stall_id (stalls market_state) ''s1'' = Some stall_1"
    by (simp add: get_item_def example_defs)
  note ev = create_review_def update_review_def get_item_def scan_def reviews_put_item_def
    put_item_def Let_def example_defs handler_errors
  have e1: "create_review market_state owner_ann ''s1'' \<lparr>rating = 5, comment = ''Mine''\<rparr>
              ''r9'' 50
       = (Inl (HTTPException 403 ''You cannot review your own stall'' []), market_state)"
    by (simp add: ev)
  have e2: "create_review market_state customer_bob ''s1'' \<lparr>rating = 5, comment = ''Again''\<rparr>
              ''r9'' 50
       = (Inl (HTTPException 400
            ''You have already reviewed this stall. Please edit your existing review.'' []),
          market_state)"
    by (simp add: ev)
  have e3: "create_review market_state owner_carl ''s1'' \<lparr>rating = 6, comment = ''Six''\<rparr>
              ''r9'' 50
       = (Inl (HTTPException 400 ''Rating must be between 1 and 5'' []), market_state)"
    by (simp add: ev)
  have e4: "create_review market_state owner_carl ''s1'' \<lparr>rating = 0, comment = ''Zero''\<rparr>
              ''r9'' 50
       = (Inl (HTTPException 400 ''Rating must be between 1 and 5'' []), market_state)"
    by (simp add: ev)
  have e5: "create_review market_state owner_carl ''s1'' \<lparr>rating = 5, comment = ''Five''\<rparr>
              ''r9'' 50
       = (Inr \<lparr>review.review_id = ''r9'', review.stall_id = ''s1'', review.user_id = ''u-carl'',
                review.user_name = ''Carl'', review.rating = 5, review.comment = ''Five'',
                review.created_at = 50, review.updated_at = 50\<rparr>,
          market_state\<lparr>reviews := [review_1, review_2,
                \<lparr>review.review_id = ''r9'', review.stall_id = ''s1'',
                  review.user_id = ''u-carl'', review.user_name = ''Carl'', review.rating = 5,
                  review.comment = ''Five'', review.created_at = 50,
                  review.updated_at = 50\<rparr>],
              writes := [PutItem Reviews ''r9'']\<rparr>)"
    by (simp add: ev)
  have e6: "update_review market_state customer_bob ''s1'' ''r1''
              \<lparr>rating = 6, comment = ''Six''\<rparr> 50
       = (Inl (HTTPException 400 ''Rating must be between 1 and 5'' []), market_state)"
    by (simp add: ev)
  from create_review_checks [OF h, of owner_ann "\<lparr>rating = 5, comment = ''Mine''\<rparr>" "''r9''"
         50 "''r1''"] h e1 e2 e3 e4 e5 e6
  show ?thesis by simp
qed

section \<open>The users table\<close>

text \<open>Only \<open>register_user\<close> writes to the users table.\<close>

lemma handlers_keep_users:
  "users (snd (create_stall s actor nm descr lat lon addr img img_id sid now)) = users s"
  "users (snd (update_stall s actor sid nm' descr' lat' lon' addr' img' img_id now)) = users s"
  "users (snd (delete_stall s actor sid)) = users s"
  "users (snd (create_menu_item s actor sid nm pr descr cat img img_id iid now)) = users s"
  "users (snd (update_menu_item s actor sid iid nm' pr' descr' cat' img' img_id now)) = users s"
  "users (snd (delete_menu_item s actor sid iid)) = users s"
  "users (snd (delete_menu_items_by_category s actor sid cat)) = users s"
  "users (snd (create_review s actor sid rv rid now)) = users s"
  "users (snd (update_review s actor sid rid rv now)) = users s"
  "users (snd (delete_review s actor sid rid)) = users s"
  by (auto simp: create_stall_def update_stall_def delete_stall_def create_menu_item_def
        update_menu_item_def delete_menu_item_def delete_menu_items_by_category_def
        create_review_def update_review_def delete_review_def get_current_owner_def
        upload_file_to_s3_def stalls_put_item_def stalls_update_item_def stalls_delete_item_def
        menu_items_put_item_def menu_items_update_item_def menu_items_delete_item_def
        reviews_put_item_def reviews_update_item_def reviews_delete_item_def
        delete_menu_items_effect delete_reviews_effect serialize_number_def Let_def
        split: option.splits)


end
